theory Spec2Isabelle
  imports Main "HOL-Library.Sublist"
begin

section \<open>The instruction protocol of the chat plugin\<close>

text \<open>
  The extension asks a language model for a response text, looks in it for one fenced
  \<^verbatim>\<open>json\<close> block, parses the block into instructions and runs each of them through
  \<open>processInstruction\<close> against the editor host (file store, text documents, terminals,
  notifications). This theory embeds the current revision of the extension: the function
  \<open>processInstruction\<close> and the part of the webview message handler in \<open>activate\<close> that
  works on the response text.

  Modelling decisions.
  \<^item> JavaScript strings are \<open>string\<close>, a character standing for a code unit below
    256. An instruction is the object the wire format
    describes: each of its fields is a string or is absent (\<open>undefined\<close>), so a field is a
    \<open>string option\<close>. Values of other JSON types in a field are outside the model.
  \<^item> The host is not part of the repository. Every call the code makes to it is appended
    to a log of events, in the order of the calls; the log is the state that is passed
    along. The host is deterministic, so what it answers to a call (resolve or reject) is
    a function of the calls made before; these functions are the fields of the record
    \<open>host\<close> and stay parameters of every definition.
  \<^item> A rejected promise or a thrown value is a \<open>js_error\<close> with the two properties the
    code reads, \<open>code\<close> and \<open>message\<close>.
  \<^item> \<open>JSON.parse\<close> is a built-in of the language; it is a parameter of the handler.
\<close>

subsection \<open>JavaScript values\<close>

text \<open>Truthiness of a value that is a string or \<open>undefined\<close>: the empty string is falsy.\<close>

definition truthy :: "string option \<Rightarrow> bool" where
  "truthy v = (case v of None \<Rightarrow> False | Some s \<Rightarrow> s \<noteq> [])"

text \<open>The string a template literal \<^verbatim>\<open>${v}\<close> produces; on a string it is the string itself.\<close>

definition str :: "string option \<Rightarrow> string" where
  "str v = (case v of None \<Rightarrow> ''undefined'' | Some s \<Rightarrow> s)"

text \<open>
  \<^verbatim>\<open>text.indexOf(pattern)\<close>: the index of the first occurrence of the pattern, \<open>-1\<close> when
  there is none. The empty pattern occurs at index 0.
\<close>

fun indexOf_from :: "string \<Rightarrow> string \<Rightarrow> nat \<Rightarrow> int" where
  "indexOf_from [] pat i = (if pat = [] then int i else - 1)"
| "indexOf_from (c # cs) pat i =
     (if prefix pat (c # cs) then int i else indexOf_from cs pat (Suc i))"

definition indexOf :: "string \<Rightarrow> string \<Rightarrow> int" where
  "indexOf text pat = indexOf_from text pat 0"

text \<open>\<^verbatim>\<open>s.trim()\<close> on the white space and line terminators of ASCII.\<close>

definition isWhiteSpace :: "char \<Rightarrow> bool" where
  "isWhiteSpace c = (c \<in> set [CHR 0x20, CHR 0x09, CHR 0x0A, CHR 0x0B, CHR 0x0C, CHR 0x0D])"

definition trim :: "string \<Rightarrow> string" where
  "trim s = rev (dropWhile isWhiteSpace (rev (dropWhile isWhiteSpace s)))"

text \<open>
  An array as \<^verbatim>\<open>String.prototype.match\<close> returns it, or \<open>null\<close>: index 0 is the matched
  text, index \<open>k\<close> the \<open>k\<close>-th capture group. Reading an index the array does not have, or
  reading from \<open>null\<close> behind \<^verbatim>\<open>m && m[k]\<close>, gives a falsy value.
\<close>

definition matchGroup :: "string list option \<Rightarrow> nat \<Rightarrow> string option" where
  "matchGroup m k = (case m of None \<Rightarrow> None
                | Some gs \<Rightarrow> if k < length gs then Some (gs ! k) else None)"

subsection \<open>The two regular expressions\<close>

text \<open>The text before and after the first occurrence of a pattern.\<close>

fun split_first :: "string \<Rightarrow> string \<Rightarrow> (string \<times> string) option" where
  "split_first pat [] = (if pat = [] then Some ([], []) else None)"
| "split_first pat (c # cs) =
     (if prefix pat (c # cs) then Some ([], drop (length pat) (c # cs))
      else map_option (\<lambda>(before, after). (c # before, after)) (split_first pat cs))"

definition fence :: string where
  "fence = ''```''"

definition newline :: string where
  "newline = [CHR 0x0A]"

text \<open>
  \<^verbatim>\<open>/```json\n([\s\S]*?)\n```/\<close>. The match starts at the first opening fence; the lazy
  group takes the text up to the first newline followed by a fence. A start on which no
  closing fence follows has none after any later start either, so the leftmost match is
  the one found by searching the opening fence first and the closing one after it.
\<close>

definition jsonBlockRegex :: "string \<Rightarrow> string list option" where
  "jsonBlockRegex text =
     (case split_first (fence @ ''json'' @ newline) text of
        None \<Rightarrow> None
      | Some (before, rest) \<Rightarrow>
          (case split_first (newline @ fence) rest of
             None \<Rightarrow> None
           | Some (interior, after) \<Rightarrow>
               Some [fence @ ''json'' @ newline @ interior @ newline @ fence, interior]))"

text \<open>
  \<^verbatim>\<open>/```(?:\w+\n)?[\s\S]*?```/\<close>. The optional group is not a capture group and holds no
  backtick, so the match runs from the first fence to the next one and the array that
  \<open>match\<close> returns has the matched text as its only element.
\<close>

definition codeBlockRegex :: "string \<Rightarrow> string list option" where
  "codeBlockRegex text =
     (case split_first fence text of
        None \<Rightarrow> None
      | Some (before, rest) \<Rightarrow>
          (case split_first fence rest of
             None \<Rightarrow> None
           | Some (body, after) \<Rightarrow> Some [fence @ body @ fence]))"

subsection \<open>Instructions and the host\<close>

record instruction =
  action :: "string option"
  filePath :: "string option"
  oldPath :: "string option"
  newPath :: "string option"
  content :: "string option"
  oldString :: "string option"
  newString :: "string option"
  command :: "string option"

text \<open>What \<open>JSON.parse\<close> returns on the interior of the block: one object or an array.\<close>

datatype parsed = JsonObject instruction | JsonArray "instruction list"

record js_error =
  code :: "string option"
  message :: "string option"

datatype uri = Uri_file string

type_synonym buffer = string

text \<open>
  \<^verbatim>\<open>Buffer.from(content, 'utf8')\<close>: the UTF-8 bytes of the content. A character of a
  \<open>string\<close> stands for a code unit below 256: below 128 it is encoded as itself, from
  128 on as two bytes.
\<close>

definition utf8 :: "char \<Rightarrow> buffer" where
  "utf8 c = (if (of_char c :: nat) < 128 then [c]
             else [char_of (192 + (of_char c :: nat) div 64),
                   char_of (128 + (of_char c :: nat) mod 64)])"

definition Buffer_from :: "string \<Rightarrow> buffer" where
  "Buffer_from s = concat (map utf8 s)"

text \<open>
  A position of a document is identified with the character offset it stands for, so
  \<open>positionAt\<close> returns its argument and a range is a pair of offsets.
\<close>

datatype vscode_range = vscode_Range nat nat

datatype textEdit = Replace vscode_range string | Insert nat string

record textDocument =
  uri :: uri
  getText :: string

definition positionAt :: "textDocument \<Rightarrow> nat \<Rightarrow> nat" where
  "positionAt doc offset = offset"

record textEditor =
  document :: textDocument
  selection_active :: nat

datatype event =
    PostMessage string
  | ShowInformationMessage string
  | ShowWarningMessage string
  | ShowErrorMessage string
  | FsDelete uri
  | FsRename uri uri
  | FsWriteFile uri buffer
  | OpenTextDocument uri
  | ShowTextDocument textDocument
  | EditorEdit textEditor textEdit
  | CreateTerminal string
  | TerminalShow
  | TerminalSendText string

text \<open>
  The answers of the host. The first argument of each field is the log of the calls made
  so far. \<open>None\<close> and \<open>Inr\<close> are a promise that resolves, \<open>Some e\<close> and \<open>Inl e\<close> one that
  rejects with \<open>e\<close>.
\<close>

record host =
  fs_delete :: "event list \<Rightarrow> uri \<Rightarrow> js_error option"
  fs_rename :: "event list \<Rightarrow> uri \<Rightarrow> uri \<Rightarrow> js_error option"
  fs_writeFile :: "event list \<Rightarrow> uri \<Rightarrow> buffer \<Rightarrow> js_error option"
  openTextDocument :: "event list \<Rightarrow> uri \<Rightarrow> js_error + textDocument"
  showTextDocument :: "event list \<Rightarrow> textDocument \<Rightarrow> js_error + textEditor"
  editor_edit :: "event list \<Rightarrow> textEditor \<Rightarrow> textEdit \<Rightarrow> js_error + bool"
  activeTextEditor :: "event list \<Rightarrow> textEditor option"

text \<open>
  Modelled from the spec: the edit-application primitive of the text document store,
  which is host code. It replaces a position range of the text with the replacement
  text; an insertion is the replacement of an empty range.
\<close>

fun applyEdit :: "textEdit \<Rightarrow> string \<Rightarrow> string" where
  "applyEdit (Replace (vscode_Range s e) new) text = take s text @ new @ drop e text"
| "applyEdit (Insert p new) text = take p text @ new @ drop p text"

subsection \<open>processInstruction\<close>

text \<open>
  \<^verbatim>\<open>processInstruction(instruction, panel)\<close>, with one definition for each case of its
  \<^verbatim>\<open>switch\<close> on \<open>instruction.action\<close>. The parameter \<open>panel\<close> is not used by the function
  and is left out. Each host call is logged when it is made; a \<^verbatim>\<open>try\<close> block ends at the
  first call that is rejected, and its \<^verbatim>\<open>catch\<close> block shows the error.
\<close>

definition deleteFile_case :: "host \<Rightarrow> instruction \<Rightarrow> event list \<Rightarrow> event list" where
  "deleteFile_case H instruction tr =
     (if truthy (filePath instruction) then
        let u = Uri_file (str (filePath instruction)) in
        (case fs_delete H tr u of
           None \<Rightarrow> tr @ [FsDelete u, ShowInformationMessage
             (''File '' @ str (filePath instruction) @ '' deleted successfully.'')]
         | Some e \<Rightarrow> tr @ [FsDelete u, ShowErrorMessage
             (''Error deleting file '' @ str (filePath instruction) @ '': '' @ str (message e))])
      else tr @ [ShowWarningMessage ''Delete file instruction missing filePath.''])"

definition renameFile_case :: "host \<Rightarrow> instruction \<Rightarrow> event list \<Rightarrow> event list" where
  "renameFile_case H instruction tr =
     (if truthy (oldPath instruction) \<and> truthy (newPath instruction) then
        let oldUri = Uri_file (str (oldPath instruction));
            newUri = Uri_file (str (newPath instruction)) in
        (case fs_rename H tr oldUri newUri of
           None \<Rightarrow> tr @ [FsRename oldUri newUri, ShowInformationMessage
             (''File '' @ str (oldPath instruction) @ '' renamed to ''
                @ str (newPath instruction) @ '' successfully.'')]
         | Some e \<Rightarrow> tr @ [FsRename oldUri newUri, ShowErrorMessage
             (''Error renaming file from '' @ str (oldPath instruction) @ '' to ''
                @ str (newPath instruction) @ '': '' @ str (message e))])
      else tr @ [ShowWarningMessage ''Rename file instruction missing oldPath or newPath.''])"

definition createFile_case :: "host \<Rightarrow> instruction \<Rightarrow> event list \<Rightarrow> event list" where
  "createFile_case H instruction tr =
     (if truthy (filePath instruction) \<and> content instruction \<noteq> None then
        let u = Uri_file (str (filePath instruction));
            bytes = Buffer_from (str (content instruction)) in
        (case fs_writeFile H tr u bytes of
           None \<Rightarrow> tr @ [FsWriteFile u bytes, ShowInformationMessage
             (''File '' @ str (filePath instruction) @ '' created successfully.'')]
         | Some e \<Rightarrow>
             if code e = Some ''EEXIST'' then
               tr @ [FsWriteFile u bytes, ShowErrorMessage
                 (''File creation failed: '' @ str (filePath instruction) @ '' already exists.'')]
             else if code e = Some ''ENOENT'' then
               tr @ [FsWriteFile u bytes, ShowErrorMessage
                 (''File creation failed: Directory for '' @ str (filePath instruction)
                    @ '' does not exist.'')]
             else
               tr @ [FsWriteFile u bytes, ShowErrorMessage
                 (''Error creating file '' @ str (filePath instruction) @ '': ''
                    @ str (message e))])
      else tr)"

definition modifyFile_case :: "host \<Rightarrow> instruction \<Rightarrow> event list \<Rightarrow> event list" where
  "modifyFile_case H instruction tr =
     (if truthy (filePath instruction) \<and> oldString instruction \<noteq> None
           \<and> newString instruction \<noteq> None then
        let u = Uri_file (str (filePath instruction));
            failed = (\<lambda>e. ShowErrorMessage
              (''Error modifying file '' @ str (filePath instruction) @ '': ''
                 @ str (message e)));
            tr1 = tr @ [OpenTextDocument u] in
        (case openTextDocument H tr u of
           Inl e \<Rightarrow> tr1 @ [failed e]
         | Inr doc \<Rightarrow>
             let tr2 = tr1 @ [ShowTextDocument doc] in
             (case showTextDocument H tr1 doc of
                Inl e \<Rightarrow> tr2 @ [failed e]
              | Inr editor \<Rightarrow>
                  let fullText = getText doc;
                      startIndex = indexOf fullText (str (oldString instruction)) in
                  if startIndex \<noteq> - 1 then
                    let startPos = positionAt doc (nat startIndex);
                        endPos = positionAt doc
                          (nat startIndex + length (str (oldString instruction)));
                        rng = vscode_Range startPos endPos;
                        edit = Replace rng (str (newString instruction));
                        tr3 = tr2 @ [EditorEdit editor edit] in
                    (case editor_edit H tr2 editor edit of
                       Inl e \<Rightarrow> tr3 @ [failed e]
                     | Inr applied \<Rightarrow> tr3 @ [ShowInformationMessage
                         (''File '' @ str (filePath instruction) @ '' modified successfully.'')])
                  else
                    tr2 @ [ShowWarningMessage
                      (''File modification failed: Could not find the specified oldString in ''
                         @ str (filePath instruction) @ ''.'')]))
      else tr)"

definition runShellCommand_case :: "host \<Rightarrow> instruction \<Rightarrow> event list \<Rightarrow> event list" where
  "runShellCommand_case H instruction tr =
     (if truthy (command instruction) then
        tr @ [CreateTerminal ''Gemini Command'', TerminalShow,
              TerminalSendText (str (command instruction)),
              ShowInformationMessage (''Executing command: '' @ str (command instruction))]
      else tr @ [ShowWarningMessage ''Run shell command instruction missing command.''])"

definition processInstruction :: "host \<Rightarrow> instruction \<Rightarrow> event list \<Rightarrow> event list" where
  "processInstruction H instruction tr =
     (if action instruction = Some ''deleteFile'' then deleteFile_case H instruction tr
      else if action instruction = Some ''renameFile'' then renameFile_case H instruction tr
      else if action instruction = Some ''createFile'' then createFile_case H instruction tr
      else if action instruction = Some ''modifyFile'' then modifyFile_case H instruction tr
      else if action instruction = Some ''runShellCommand''
        then runShellCommand_case H instruction tr
      else tr @ [ShowWarningMessage
        ''AI provided an unrecognized or incomplete JSON instruction.''])"

subsection \<open>The handler of a response text\<close>

text \<open>
  The \<^verbatim>\<open>for\<close> loop over the parsed array: each call of \<open>processInstruction\<close> is awaited
  before the next element is taken.
\<close>

fun processInstructions :: "host \<Rightarrow> instruction list \<Rightarrow> event list \<Rightarrow> event list" where
  "processInstructions H [] tr = tr"
| "processInstructions H (instruction # rest) tr =
     processInstructions H rest (processInstruction H instruction tr)"

text \<open>The insertion of a generic code block, reached when no instruction block was taken.\<close>

definition insertCodeBlock :: "host \<Rightarrow> string \<Rightarrow> event list \<Rightarrow> event list" where
  "insertCodeBlock H text tr =
     (let codeMatch = codeBlockRegex text in
      if truthy (matchGroup codeMatch 1) then
        let codeToInsert = trim (str (matchGroup codeMatch 1)) in
        (case activeTextEditor H tr of
           Some editor \<Rightarrow>
             tr @ [EditorEdit editor (Insert (selection_active editor) codeToInsert),
                   ShowInformationMessage ''Code inserted into active editor.'']
         | None \<Rightarrow> tr @ [ShowWarningMessage ''No active text editor found to insert code.''])
      else tr)"

text \<open>
  The \<^verbatim>\<open>prompt\<close> case of the message handler in \<open>activate\<close>, from the point where the
  response text is known: the text is posted to the chat, then searched for the
  instruction block. \<open>None\<close> from \<open>JSON_parse\<close> is the syntax error that \<open>JSON.parse\<close>
  throws. The single object is passed to \<open>processInstruction\<close> without \<^verbatim>\<open>await\<close>; the
  handler does nothing after that call, so the events come in the same order. The calls
  of \<^verbatim>\<open>console.error\<close> are not logged.
\<close>

definition handleResponse ::
  "(string \<Rightarrow> parsed option) \<Rightarrow> host \<Rightarrow> string \<Rightarrow> event list \<Rightarrow> event list" where
  "handleResponse JSON_parse H text tr0 =
     (let tr = tr0 @ [PostMessage text];
          jsonMatch = jsonBlockRegex text in
      if truthy (matchGroup jsonMatch 1) then
        (case JSON_parse (str (matchGroup jsonMatch 1)) of
           None \<Rightarrow> tr @ [ShowErrorMessage ''AI provided malformed JSON instruction(s).'']
         | Some (JsonObject instruction) \<Rightarrow>
             processInstruction H instruction (tr @ [ShowWarningMessage
               ''AI provided a single JSON object instead of an array for operations. Attempting to process as a single operation.''])
         | Some (JsonArray instructions) \<Rightarrow> processInstructions H instructions tr)
      else insertCodeBlock H text tr)"

subsection \<open>Notifications and complete instructions\<close>

fun isNotification :: "event \<Rightarrow> bool" where
  "isNotification (ShowInformationMessage m) = True"
| "isNotification (ShowWarningMessage m) = True"
| "isNotification (ShowErrorMessage m) = True"
| "isNotification e = False"

definition notifications :: "event list \<Rightarrow> event list" where
  "notifications tr = filter isNotification tr"

text \<open>
  An instruction is structurally complete when it passes the check that
  \<open>processInstruction\<close> makes for its action before it calls the host.
\<close>

definition complete :: "instruction \<Rightarrow> bool" where
  "complete instruction =
     (if action instruction = Some ''deleteFile'' then truthy (filePath instruction)
      else if action instruction = Some ''renameFile''
        then truthy (oldPath instruction) \<and> truthy (newPath instruction)
      else if action instruction = Some ''createFile''
        then truthy (filePath instruction) \<and> content instruction \<noteq> None
      else if action instruction = Some ''modifyFile''
        then truthy (filePath instruction) \<and> oldString instruction \<noteq> None
               \<and> newString instruction \<noteq> None
      else if action instruction = Some ''runShellCommand'' then truthy (command instruction)
      else False)"

text \<open>
  The instructions that \<open>processInstruction\<close> passes over without any notification: the
  incomplete ones of the two cases that have no \<^verbatim>\<open>else\<close> branch.
\<close>

definition skipped_silently :: "instruction \<Rightarrow> bool" where
  "skipped_silently instruction =
     ((action instruction = Some ''createFile'' \<or> action instruction = Some ''modifyFile'')
      \<and> \<not> complete instruction)"

subsection \<open>A host, instructions and payloads for the examples\<close>

text \<open>
  The host of the test suite (\<open>mockVscode\<close> in \<^verbatim>\<open>processInstruction.test.ts\<close>): every
  file operation resolves, every document opens with the text \<^verbatim>\<open>file content\<close>, every
  edit resolves to \<open>true\<close>, and there is an active editor with its cursor at offset 0.
\<close>

definition mockVscode :: host where
  "mockVscode =
     \<lparr>fs_delete = (\<lambda>tr u. None),
      fs_rename = (\<lambda>tr u v. None),
      fs_writeFile = (\<lambda>tr u b. None),
      openTextDocument = (\<lambda>tr u. Inr \<lparr>uri = u, getText = ''file content''\<rparr>),
      showTextDocument = (\<lambda>tr d. Inr \<lparr>document = d, selection_active = 0\<rparr>),
      editor_edit = (\<lambda>tr ed e. Inr True),
      activeTextEditor = (\<lambda>tr. Some \<lparr>document = \<lparr>uri = Uri_file ''/test/active.js'',
        getText = []\<rparr>, selection_active = 0\<rparr>)\<rparr>"

text \<open>The same host with the text of the documents chosen.\<close>

definition mockVscode_with_text :: "string \<Rightarrow> host" where
  "mockVscode_with_text t =
     mockVscode\<lparr>openTextDocument := (\<lambda>tr u. Inr \<lparr>uri = u, getText = t\<rparr>)\<rparr>"

text \<open>The object \<^verbatim>\<open>{}\<close>; the instructions of the examples set fields of it.\<close>

definition emptyObject :: instruction where
  "emptyObject = \<lparr>action = None, filePath = None, oldPath = None, newPath = None,
     content = None, oldString = None, newString = None, command = None\<rparr>"

definition deleteInstruction :: instruction where
  "deleteInstruction =
     emptyObject\<lparr>action := Some ''deleteFile'', filePath := Some ''/test/file-to-delete.js''\<rparr>"

definition createInstruction :: instruction where
  "createInstruction =
     emptyObject\<lparr>action := Some ''createFile'', filePath := Some ''/test/new-file.js'',
       content := Some ''console.log(1);''\<rparr>"

definition createWithoutContent :: instruction where
  "createWithoutContent =
     emptyObject\<lparr>action := Some ''createFile'', filePath := Some ''/test/new-file.js''\<rparr>"

definition modifyInstruction :: instruction where
  "modifyInstruction =
     emptyObject\<lparr>action := Some ''modifyFile'', filePath := Some ''/test/existing-file.js'',
       oldString := Some ''old content'', newString := Some ''new content''\<rparr>"

text \<open>
  \<open>JSON.parse\<close> on the payload texts of the examples. Every other text is taken for a
  syntax error here; the empty text, on which the examples rely, is one for \<open>JSON.parse\<close>.
\<close>

definition exampleParse :: "string \<Rightarrow> parsed option" where
  \<open>exampleParse s =
     (if s = ''{"action":"deleteFile","filePath":"/test/file-to-delete.js"}''
        then Some (JsonObject deleteInstruction)
      else if s = ''[{"action":"deleteFile","filePath":"/test/file-to-delete.js"},{"action":"createFile","filePath":"/test/new-file.js","content":"console.log(1);"}]''
        then Some (JsonArray [deleteInstruction, createInstruction])
      else if s = ''[{"action":"createFile","filePath":"/test/new-file.js"},{"action":"deleteFile","filePath":"/test/file-to-delete.js"}]''
        then Some (JsonArray [createWithoutContent, deleteInstruction])
      else None)\<close>

text \<open>Hosts that reject one operation with a given error and are \<open>mockVscode\<close> otherwise.\<close>

definition rejectDelete :: "js_error \<Rightarrow> host" where
  "rejectDelete e = mockVscode\<lparr>fs_delete := (\<lambda>tr u. Some e)\<rparr>"

definition rejectWrite :: "js_error \<Rightarrow> host" where
  "rejectWrite e = mockVscode\<lparr>fs_writeFile := (\<lambda>tr u b. Some e)\<rparr>"

text \<open>A response text that consists of one fenced \<^verbatim>\<open>json\<close> block.\<close>

definition jsonBlock :: "string \<Rightarrow> string" where
  "jsonBlock interior = fence @ ''json'' @ newline @ interior @ newline @ fence"

section \<open>Facts about the embedding\<close>

subsection \<open>Searching a text\<close>

lemma indexOf_from_found:
  "indexOf_from t pat i \<noteq> - 1 \<Longrightarrow>
     \<exists>k. indexOf_from t pat i = int (i + k) \<and> k \<le> length t \<and> prefix pat (drop k t)"
proof (induction t arbitrary: i)
  case Nil
  then show ?case by (auto split: if_splits)
next
  case (Cons c cs)
  show ?case
  proof (cases "prefix pat (c # cs)")
    case True
    then have "indexOf_from (c # cs) pat i = int (i + 0) \<and> 0 \<le> length (c # cs)
        \<and> prefix pat (drop 0 (c # cs))" by simp
    then show ?thesis by blast
  next
    case False
    with Cons.prems have "indexOf_from cs pat (Suc i) \<noteq> - 1" by simp
    from Cons.IH [OF this] obtain k where
      k: "indexOf_from cs pat (Suc i) = int (Suc i + k)" "k \<le> length cs" "prefix pat (drop k cs)"
      by blast
    with False have "indexOf_from (c # cs) pat i = int (i + Suc k) \<and> Suc k \<le> length (c # cs)
        \<and> prefix pat (drop (Suc k) (c # cs))" by simp
    then show ?thesis by blast
  qed
qed

lemma indexOf_from_first:
  "t = a @ pat @ b \<Longrightarrow> \<exists>k \<le> length a. indexOf_from t pat i = int (i + k)"
proof (induction t arbitrary: a i)
  case Nil
  then show ?case by simp
next
  case (Cons c cs)
  show ?case
  proof (cases "prefix pat (c # cs)")
    case True
    then show ?thesis by simp
  next
    case False
    with Cons.prems obtain a' where a: "a = c # a'" "cs = a' @ pat @ b"
      by (cases a) auto
    from Cons.IH [OF a(2), of "Suc i"] obtain k where
      "k \<le> length a'" "indexOf_from cs pat (Suc i) = int (Suc i + k)" by blast
    with False a have "Suc k \<le> length a \<and> indexOf_from (c # cs) pat i = int (i + Suc k)"
      by simp
    then show ?thesis by blast
  qed
qed

text \<open>
  Where the pattern occurs, \<open>indexOf\<close> is the start of an occurrence, and no occurrence
  starts before it.
\<close>

lemma indexOf_occurrence:
  assumes "text = a @ pat @ b"
  shows "0 \<le> indexOf text pat"
    and "nat (indexOf text pat) \<le> length a"
    and "text = take (nat (indexOf text pat)) text @ pat
                  @ drop (nat (indexOf text pat) + length pat) text"
proof -
  from indexOf_from_first [OF assms, of 0] obtain k where
    k: "k \<le> length a" "indexOf text pat = int k" by (auto simp: indexOf_def)
  then show "0 \<le> indexOf text pat" and "nat (indexOf text pat) \<le> length a" by simp_all
  from k have "indexOf_from text pat 0 \<noteq> - 1" by (simp add: indexOf_def)
  from indexOf_from_found [OF this] k obtain "prefix pat (drop k text)"
    by (auto simp: indexOf_def)
  then obtain r where r: "drop k text = pat @ r" by (auto simp: prefix_def)
  then have "drop (k + length pat) text = r"
    by (metis add.commute append_eq_conv_conj drop_drop)
  with r have "text = take k text @ pat @ drop (k + length pat) text"
    by (metis append_take_drop_id)
  with k show "text = take (nat (indexOf text pat)) text @ pat
                  @ drop (nat (indexOf text pat) + length pat) text" by simp
qed

lemma indexOf_absent_iff: "indexOf text pat = - 1 \<longleftrightarrow> \<not> sublist pat text"
proof
  assume m: "indexOf text pat = - 1"
  show "\<not> sublist pat text"
  proof
    assume "sublist pat text"
    then obtain a b where "text = a @ pat @ b" by (auto simp: sublist_def)
    from indexOf_occurrence(1) [OF this] m show False by simp
  qed
next
  assume n: "\<not> sublist pat text"
  show "indexOf text pat = - 1"
  proof (rule ccontr)
    assume "indexOf text pat \<noteq> - 1"
    then have "indexOf_from text pat 0 \<noteq> - 1" by (simp add: indexOf_def)
    from indexOf_from_found [OF this] obtain k where "prefix pat (drop k text)" by blast
    then obtain r where "drop k text = pat @ r" by (auto simp: prefix_def)
    then have "text = take k text @ pat @ r" by (metis append_take_drop_id)
    with n show False by (auto simp: sublist_def)
  qed
qed

subsection \<open>The instruction pattern\<close>

text \<open>
  \<open>jsonBlockRegex\<close> matches exactly the texts that contain a fenced \<^verbatim>\<open>json\<close> block, and
  what it returns is such a block of the text together with its interior.
\<close>

lemma split_first_Some: "split_first pat t = Some (a, b) \<Longrightarrow> t = a @ pat @ b"
proof (induction t arbitrary: a)
  case Nil
  then show ?case by (simp split: if_splits)
next
  case (Cons c cs)
  show ?case
  proof (cases "prefix pat (c # cs)")
    case True
    with Cons.prems have "a = []" "b = drop (length pat) (c # cs)" by simp_all
    moreover from True obtain r where "c # cs = pat @ r" by (auto simp: prefix_def)
    ultimately show ?thesis by simp
  next
    case False
    with Cons.prems obtain a' where "split_first pat cs = Some (a', b)" "a = c # a'"
      by auto
    with Cons.IH show ?thesis by simp
  qed
qed

lemma split_first_found:
  "t = a @ pat @ b \<Longrightarrow> \<exists>a' b'. split_first pat t = Some (a', b') \<and> length a' \<le> length a"
proof (induction t arbitrary: a)
  case Nil
  then show ?case by simp
next
  case (Cons c cs)
  show ?case
  proof (cases "prefix pat (c # cs)")
    case True
    then show ?thesis by simp
  next
    case False
    with Cons.prems obtain d where d: "a = c # d" "cs = d @ pat @ b"
      by (cases a) auto
    from Cons.IH [OF d(2)] obtain a' b' where
      "split_first pat cs = Some (a', b')" "length a' \<le> length d" by blast
    with False d(1) show ?thesis by simp
  qed
qed

lemma jsonBlockRegex_Some:
  assumes "jsonBlockRegex text = Some gs"
  shows "\<exists>before interior after. gs = [jsonBlock interior, interior]
       \<and> text = before @ jsonBlock interior @ after"
proof -
  from assms obtain before rest where
    o: "split_first (fence @ ''json'' @ newline) text = Some (before, rest)"
    by (auto simp: jsonBlockRegex_def split: option.splits)
  with assms obtain interior after where
    c: "split_first (newline @ fence) rest = Some (interior, after)"
    and gs: "gs = [jsonBlock interior, interior]"
    by (auto simp: jsonBlockRegex_def jsonBlock_def split: option.splits)
  from split_first_Some [OF o] split_first_Some [OF c]
  have "text = before @ jsonBlock interior @ after" by (simp add: jsonBlock_def)
  with gs show ?thesis by blast
qed

lemma append_eq_shorter_prefix:
  "xs @ x = ys @ y \<Longrightarrow> length xs \<le> length ys \<Longrightarrow> \<exists>d. ys = xs @ d \<and> x = d @ y"
  by (induction xs arbitrary: ys) (auto simp: Cons_eq_append_conv)

lemma jsonBlockRegex_None:
  assumes "jsonBlockRegex text = None"
  shows "text \<noteq> before @ jsonBlock interior @ after"
proof
  define opener where "opener = fence @ ''json'' @ newline"
  define closer where "closer = newline @ fence"
  assume "text = before @ jsonBlock interior @ after"
  then have t: "text = before @ opener @ (interior @ closer @ after)"
    by (simp add: jsonBlock_def opener_def closer_def)
  from split_first_found [OF t] obtain a' rest where
    o: "split_first opener text = Some (a', rest)"
    and le: "length a' \<le> length before" by blast
  from split_first_Some [OF o] t
  have "a' @ (opener @ rest) = before @ (opener @ interior @ closer @ after)"
    by simp
  from append_eq_shorter_prefix [OF this le] obtain d where
    d: "opener @ rest = d @ opener @ interior @ closer @ after" by blast
  then have "rest = drop (length opener) ((d @ opener) @ interior @ closer @ after)"
    by (metis append_eq_conv_conj append.assoc)
  then have "rest = (drop (length opener) (d @ opener) @ interior) @ closer @ after"
    by simp
  from split_first_found [OF this] obtain i' b' where
    "split_first closer rest = Some (i', b')" by blast
  with o assms show False by (simp add: jsonBlockRegex_def opener_def closer_def)
qed

subsection \<open>The log only grows\<close>

lemma prefix_deleteFile_case: "prefix tr (deleteFile_case H i tr)"
  by (simp add: deleteFile_case_def Let_def split: option.splits)

lemma prefix_renameFile_case: "prefix tr (renameFile_case H i tr)"
  by (simp add: renameFile_case_def Let_def split: option.splits)

lemma prefix_createFile_case: "prefix tr (createFile_case H i tr)"
  by (simp add: createFile_case_def Let_def split: option.splits)

lemma prefix_modifyFile_case: "prefix tr (modifyFile_case H i tr)"
  by (simp add: modifyFile_case_def Let_def split: sum.splits)

lemma prefix_runShellCommand_case: "prefix tr (runShellCommand_case H i tr)"
  by (simp add: runShellCommand_case_def)

lemma prefix_processInstruction: "prefix tr (processInstruction H i tr)"
  unfolding processInstruction_def
  by (simp only: prefix_deleteFile_case prefix_renameFile_case prefix_createFile_case
      prefix_modifyFile_case prefix_runShellCommand_case prefixI if_split) simp

subsection \<open>One notification for each complete instruction\<close>

lemma notifications_append:
  "notifications (xs @ ys) = notifications xs @ notifications ys"
  by (simp add: notifications_def)

lemma one_notification_deleteFile_case:
  "truthy (filePath i) \<Longrightarrow>
     length (notifications (deleteFile_case H i tr)) = Suc (length (notifications tr))"
  by (simp add: deleteFile_case_def Let_def notifications_def split: option.splits)

lemma one_notification_renameFile_case:
  "truthy (oldPath i) \<and> truthy (newPath i) \<Longrightarrow>
     length (notifications (renameFile_case H i tr)) = Suc (length (notifications tr))"
  by (simp add: renameFile_case_def Let_def notifications_def split: option.splits)

lemma one_notification_createFile_case:
  "truthy (filePath i) \<and> content i \<noteq> None \<Longrightarrow>
     length (notifications (createFile_case H i tr)) = Suc (length (notifications tr))"
  by (simp add: createFile_case_def Let_def notifications_def split: option.splits)

lemma one_notification_modifyFile_case:
  "truthy (filePath i) \<and> oldString i \<noteq> None \<and> newString i \<noteq> None \<Longrightarrow>
     length (notifications (modifyFile_case H i tr)) = Suc (length (notifications tr))"
  by (simp add: modifyFile_case_def Let_def notifications_def split: sum.splits)

lemma one_notification_runShellCommand_case:
  "truthy (command i) \<Longrightarrow>
     length (notifications (runShellCommand_case H i tr)) = Suc (length (notifications tr))"
  by (simp add: runShellCommand_case_def notifications_def)

lemma complete_one_notification:
  "complete i \<Longrightarrow>
     length (notifications (processInstruction H i tr)) = Suc (length (notifications tr))"
  unfolding complete_def processInstruction_def
  by (simp add: one_notification_deleteFile_case one_notification_renameFile_case
      one_notification_createFile_case one_notification_modifyFile_case
      one_notification_runShellCommand_case split: if_splits)

lemma processInstructions_append:
  "processInstructions H (xs @ ys) tr = processInstructions H ys (processInstructions H xs tr)"
  by (induction xs arbitrary: tr) simp_all

lemma complete_batch_notifications:
  "list_all complete is \<Longrightarrow>
     length (notifications (processInstructions H is tr)) = length (notifications tr) + length is"
  by (induction "is" arbitrary: tr) (simp_all add: complete_one_notification)

subsection \<open>The code block path\<close>

text \<open>
  \<open>codeBlockRegex\<close> has no capture group, so index 1 of its match is never there and
  the branch that inserts the code is never taken.
\<close>

lemma matchGroup_codeBlockRegex: "matchGroup (codeBlockRegex text) 1 = None"
  by (auto simp: matchGroup_def codeBlockRegex_def split: option.splits prod.splits)

lemma insertCodeBlock_inert: "insertCodeBlock H text tr = tr"
  unfolding insertCodeBlock_def Let_def matchGroup_codeBlockRegex
  by (simp add: truthy_def)

subsection \<open>Missing fields in the cases that have an else branch\<close>

lemma missing_field_warning_of_the_other_actions:
  "(action i = Some ''deleteFile'' \<and> filePath i = None \<longrightarrow>
      processInstruction H i tr =
        tr @ [ShowWarningMessage ''Delete file instruction missing filePath.''])
   \<and> (action i = Some ''renameFile'' \<and> (oldPath i = None \<or> newPath i = None) \<longrightarrow>
      processInstruction H i tr =
        tr @ [ShowWarningMessage ''Rename file instruction missing oldPath or newPath.''])
   \<and> (action i = Some ''runShellCommand'' \<and> command i = None \<longrightarrow>
      processInstruction H i tr =
        tr @ [ShowWarningMessage ''Run shell command instruction missing command.''])"
  by (auto simp: processInstruction_def deleteFile_case_def renameFile_case_def
      runShellCommand_case_def truthy_def)

subsection \<open>The handler on a response with a non-empty instruction block\<close>

lemma handleResponse_on_block:
  assumes "jsonBlockRegex text = Some [whole, interior]" and "interior \<noteq> []"
  shows "handleResponse JSON_parse H text tr =
     (case JSON_parse interior of
        None \<Rightarrow> tr @ [PostMessage text,
          ShowErrorMessage ''AI provided malformed JSON instruction(s).'']
      | Some (JsonObject instruction) \<Rightarrow>
          processInstruction H instruction (tr @ [PostMessage text, ShowWarningMessage
            ''AI provided a single JSON object instead of an array for operations. Attempting to process as a single operation.''])
      | Some (JsonArray instructions) \<Rightarrow>
          processInstructions H instructions (tr @ [PostMessage text]))"
  using assms
  by (simp add: handleResponse_def matchGroup_def truthy_def str_def Let_def
      split: option.splits parsed.splits)

subsection \<open>Batches\<close>

text \<open>
  Every instruction adds exactly one notification to the log, except the incomplete
  \<open>createFile\<close> and \<open>modifyFile\<close> instructions, which add none.
\<close>

lemma count_deleteFile_case:
  "length (notifications (deleteFile_case H i tr)) = Suc (length (notifications tr))"
  by (simp add: deleteFile_case_def Let_def notifications_def split: option.splits)

lemma count_renameFile_case:
  "length (notifications (renameFile_case H i tr)) = Suc (length (notifications tr))"
  by (simp add: renameFile_case_def Let_def notifications_def split: option.splits)

lemma count_runShellCommand_case:
  "length (notifications (runShellCommand_case H i tr)) = Suc (length (notifications tr))"
  by (simp add: runShellCommand_case_def notifications_def)

lemma count_createFile_case:
  "length (notifications (createFile_case H i tr)) =
     (if truthy (filePath i) \<and> content i \<noteq> None then Suc (length (notifications tr))
      else length (notifications tr))"
proof (cases "truthy (filePath i) \<and> content i \<noteq> None")
  case True
  from one_notification_createFile_case [OF this] True show ?thesis by simp
next
  case False
  then have "createFile_case H i tr = tr" by (auto simp: createFile_case_def)
  with False show ?thesis by auto
qed

lemma count_modifyFile_case:
  "length (notifications (modifyFile_case H i tr)) =
     (if truthy (filePath i) \<and> oldString i \<noteq> None \<and> newString i \<noteq> None
      then Suc (length (notifications tr)) else length (notifications tr))"
proof (cases "truthy (filePath i) \<and> oldString i \<noteq> None \<and> newString i \<noteq> None")
  case True
  from one_notification_modifyFile_case [OF this] True show ?thesis by simp
next
  case False
  then have "modifyFile_case H i tr = tr" by (auto simp: modifyFile_case_def)
  with False show ?thesis by auto
qed

lemma count_unrecognized:
  "length (notifications (tr @ [ShowWarningMessage m])) = Suc (length (notifications tr))"
  by (simp add: notifications_def)

lemma count_processInstruction:
  "length (notifications (processInstruction H i tr)) =
     (if skipped_silently i then length (notifications tr)
      else Suc (length (notifications tr)))"
  unfolding processInstruction_def skipped_silently_def complete_def
  by (simp add: count_deleteFile_case count_renameFile_case count_runShellCommand_case
      count_createFile_case count_modifyFile_case count_unrecognized)

lemma count_processInstructions:
  "length (notifications (processInstructions H is tr)) =
     length (notifications tr) + length (filter (\<lambda>i. \<not> skipped_silently i) is)"
  by (induction "is" arbitrary: tr) (simp_all add: count_processInstruction)

text \<open>
  When the interior of the block parses to an array, \<open>processInstruction\<close> runs once for
  each element, in the order of the array, each run on the log the runs before it have
  left: whatever element is taken, the elements before it have run first and the
  elements after it run next, to the last one, whether the host has rejected an
  operation or not. A batch of complete instructions adds exactly one notification for
  each element, whatever the host answers.
\<close>

lemma batch_runs_in_array_order:
  assumes "jsonBlockRegex text = Some [whole, interior]"
    and "JSON_parse [] = None"
    and "JSON_parse interior = Some (JsonArray instructions)"
  shows "handleResponse JSON_parse H text tr =
           processInstructions H instructions (tr @ [PostMessage text])
       \<and> (\<forall>earlier instruction later. instructions = earlier @ instruction # later \<longrightarrow>
            handleResponse JSON_parse H text tr =
              processInstructions H later
                (processInstruction H instruction
                  (processInstructions H earlier (tr @ [PostMessage text]))))
       \<and> (list_all complete instructions \<longrightarrow>
            length (notifications (handleResponse JSON_parse H text tr)) =
              length (notifications tr) + length instructions)"
proof -
  from assms(2,3) have "interior \<noteq> []" by auto
  from handleResponse_on_block [OF assms(1) this] assms(3)
  have run: "handleResponse JSON_parse H text tr =
      processInstructions H instructions (tr @ [PostMessage text])" by simp
  have order: "processInstructions H instructions (tr @ [PostMessage text]) =
      processInstructions H later
        (processInstruction H instruction
          (processInstructions H earlier (tr @ [PostMessage text])))"
    if "instructions = earlier @ instruction # later" for earlier instruction later
    using that by (simp add: processInstructions_append)
  have count: "list_all complete instructions \<Longrightarrow>
      length (notifications (processInstructions H instructions (tr @ [PostMessage text]))) =
        length (notifications tr) + length instructions"
    by (simp add: complete_batch_notifications notifications_append)
       (simp add: notifications_def)
  from run order count show ?thesis by simp
qed

text \<open>
  A batch of two complete instructions on a host that rejects the deletion: the error of
  the first instruction is shown, and the second instruction runs and shows its own
  message.
\<close>

lemma batch_with_a_rejected_deletion:
  \<open>handleResponse exampleParse (rejectDelete \<lparr>code = None, message = Some ''File not found''\<rparr>)
     (jsonBlock ''[{"action":"deleteFile","filePath":"/test/file-to-delete.js"},{"action":"createFile","filePath":"/test/new-file.js","content":"console.log(1);"}]'') []
   = [PostMessage (jsonBlock ''[{"action":"deleteFile","filePath":"/test/file-to-delete.js"},{"action":"createFile","filePath":"/test/new-file.js","content":"console.log(1);"}]''),
      FsDelete (Uri_file ''/test/file-to-delete.js''),
      ShowErrorMessage ''Error deleting file /test/file-to-delete.js: File not found'',
      FsWriteFile (Uri_file ''/test/new-file.js'') ''console.log(1);'',
      ShowInformationMessage ''File /test/new-file.js created successfully.'']
   \<and> length (notifications (handleResponse exampleParse
        (rejectDelete \<lparr>code = None, message = Some ''File not found''\<rparr>)
        (jsonBlock ''[{"action":"deleteFile","filePath":"/test/file-to-delete.js"},{"action":"createFile","filePath":"/test/new-file.js","content":"console.log(1);"}]'') [])) = 2\<close>
  using batch_runs_in_array_order
    [of \<open>jsonBlock ''[{"action":"deleteFile","filePath":"/test/file-to-delete.js"},{"action":"createFile","filePath":"/test/new-file.js","content":"console.log(1);"}]''\<close>
      \<open>jsonBlock ''[{"action":"deleteFile","filePath":"/test/file-to-delete.js"},{"action":"createFile","filePath":"/test/new-file.js","content":"console.log(1);"}]''\<close>
      \<open>''[{"action":"deleteFile","filePath":"/test/file-to-delete.js"},{"action":"createFile","filePath":"/test/new-file.js","content":"console.log(1);"}]''\<close>
      exampleParse "[deleteInstruction, createInstruction]"
      "rejectDelete \<lparr>code = None, message = Some ''File not found''\<rparr>" "[]"]
  by (simp add: jsonBlock_def jsonBlockRegex_def fence_def newline_def exampleParse_def
      processInstruction_def deleteFile_case_def createFile_case_def truthy_def str_def
      deleteInstruction_def createInstruction_def emptyObject_def rejectDelete_def mockVscode_def
      Buffer_from_def utf8_def complete_def notifications_def)

section \<open>The claims\<close>

text \<open>
  Claim C1: an instruction of a recognized action that omits a required field gets
  exactly one warning that names the fields, and no host call. The code does this for
  \<open>deleteFile\<close>, \<open>renameFile\<close> and \<open>runShellCommand\<close> (lemma
  \<open>missing_field_warning_of_the_other_actions\<close>), and the test suite expects it of all five
  actions. The cases \<open>createFile\<close> and \<open>modifyFile\<close> have no \<^verbatim>\<open>else\<close> branch: on the two
  instructions of the test suite that omit \<open>content\<close> and \<open>newString\<close> the log stays as it
  was, so no warning is shown.
\<close>

theorem missing_field_of_createFile_and_modifyFile_is_silent:
  "processInstruction H
     (emptyObject\<lparr>action := Some ''createFile'', filePath := Some ''/test/new-file.js''\<rparr>) tr = tr
   \<and> processInstruction H
     (emptyObject\<lparr>action := Some ''modifyFile'', filePath := Some ''/test/existing-file.js'',
        oldString := Some ''old content''\<rparr>) tr = tr"
  by (simp add: processInstruction_def createFile_case_def modifyFile_case_def emptyObject_def)

text \<open>
  Claim C2: when no instruction block matches, a generic fenced code block is present and
  there is an active editor, the trimmed interior of the block is inserted at the cursor
  and \<^verbatim>\<open>Code inserted into active editor.\<close> is shown. On the response below the
  instruction pattern does not match, the code block pattern matches the whole text and
  the host has an active editor, yet the only event is the post of the response to the
  chat: nothing is inserted and nothing is shown.
\<close>

theorem code_block_is_never_inserted:
  "jsonBlockRegex (fence @ ''javascript'' @ newline @ ''console.log(1);'' @ newline @ fence) = None
   \<and> codeBlockRegex (fence @ ''javascript'' @ newline @ ''console.log(1);'' @ newline @ fence)
       = Some [fence @ ''javascript'' @ newline @ ''console.log(1);'' @ newline @ fence]
   \<and> activeTextEditor mockVscode
        [PostMessage (fence @ ''javascript'' @ newline @ ''console.log(1);'' @ newline @ fence)]
       = Some \<lparr>document = \<lparr>uri = Uri_file ''/test/active.js'', getText = []\<rparr>,
           selection_active = 0\<rparr>
   \<and> handleResponse exampleParse mockVscode
        (fence @ ''javascript'' @ newline @ ''console.log(1);'' @ newline @ fence) []
       = [PostMessage (fence @ ''javascript'' @ newline @ ''console.log(1);'' @ newline @ fence)]"
  by (simp add: handleResponse_def insertCodeBlock_def jsonBlockRegex_def codeBlockRegex_def
      matchGroup_def truthy_def fence_def newline_def mockVscode_def)

text \<open>
  Claim C3, as amended: for a \<open>modifyFile\<close> instruction with a non-empty \<open>filePath\<close> and
  with \<open>oldString\<close> and \<open>newString\<close> present, whose document opens and is shown, whose
  text contains \<open>oldString\<close> (at any place \<open>a\<close>), and whose edit does not raise, the
  dispatcher asks for one edit: the replacement by \<open>newString\<close> of the range that starts at
  the first occurrence of \<open>oldString\<close> (index \<open>k\<close>, not after \<open>a\<close>) and has its length.
  The match is literal, character by character. Applied to the text, the edit leaves the
  \<open>k\<close> characters before the occurrence and everything after it as they were. Then the
  info message that names the file is shown.
\<close>

theorem modifyFile_replaces_first_occurrence:
  assumes "action i = Some ''modifyFile''" and "filePath i = Some p" and "p \<noteq> []"
    and "oldString i = Some old" and "newString i = Some new"
    and "openTextDocument H tr (Uri_file p) = Inr doc"
    and "showTextDocument H (tr @ [OpenTextDocument (Uri_file p)]) doc = Inr ed"
    and "getText doc = a @ old @ b"
    and "k = nat (indexOf (getText doc) old)"
    and "editor_edit H (tr @ [OpenTextDocument (Uri_file p), ShowTextDocument doc]) ed
           (Replace (vscode_Range k (k + length old)) new) = Inr applied"
  shows "k \<le> length a
       \<and> getText doc = take k (getText doc) @ old @ drop (k + length old) (getText doc)
       \<and> processInstruction H i tr =
           tr @ [OpenTextDocument (Uri_file p), ShowTextDocument doc,
                 EditorEdit ed (Replace (vscode_Range k (k + length old)) new),
                 ShowInformationMessage (''File '' @ p @ '' modified successfully.'')]
       \<and> applyEdit (Replace (vscode_Range k (k + length old)) new) (getText doc) =
           take k (getText doc) @ new @ drop (k + length old) (getText doc)"
proof -
  note occ = indexOf_occurrence [OF assms(8)]
  from occ(1) have found: "indexOf (getText doc) old \<noteq> - 1" by simp
  from occ(2) assms(9) have first: "k \<le> length a" by simp
  from occ(3) assms(9) have split:
    "getText doc = take k (getText doc) @ old @ drop (k + length old) (getText doc)" by simp
  from assms(1-7) assms(10) found assms(9) have run: "processInstruction H i tr =
      tr @ [OpenTextDocument (Uri_file p), ShowTextDocument doc,
            EditorEdit ed (Replace (vscode_Range k (k + length old)) new),
            ShowInformationMessage (''File '' @ p @ '' modified successfully.'')]"
    by (simp add: processInstruction_def modifyFile_case_def truthy_def str_def Let_def
        positionAt_def)
  from first split run show ?thesis by simp
qed

text \<open>
  The theorem on a document in which \<open>oldString\<close> occurs twice: the first occurrence, at
  offset 3, is the one replaced.
\<close>

theorem modifyFile_replaces_first_occurrence_witness:
  "processInstruction (mockVscode_with_text ''an old content and old content'')
     modifyInstruction []
   = [OpenTextDocument (Uri_file ''/test/existing-file.js''),
      ShowTextDocument \<lparr>uri = Uri_file ''/test/existing-file.js'',
        getText = ''an old content and old content''\<rparr>,
      EditorEdit \<lparr>document = \<lparr>uri = Uri_file ''/test/existing-file.js'',
        getText = ''an old content and old content''\<rparr>, selection_active = 0\<rparr>
        (Replace (vscode_Range 3 14) ''new content''),
      ShowInformationMessage ''File /test/existing-file.js modified successfully.'']
   \<and> applyEdit (Replace (vscode_Range 3 14) ''new content'') ''an old content and old content''
       = ''an new content and old content''"
  using modifyFile_replaces_first_occurrence [of modifyInstruction "''/test/existing-file.js''"
      "''old content''" "''new content''" "mockVscode_with_text ''an old content and old content''"
      "[]" "\<lparr>uri = Uri_file ''/test/existing-file.js'',
        getText = ''an old content and old content''\<rparr>"
      "\<lparr>document = \<lparr>uri = Uri_file ''/test/existing-file.js'',
        getText = ''an old content and old content''\<rparr>, selection_active = 0\<rparr>"
      "''an ''" "'' and old content''" 3 True]
  by (simp add: mockVscode_with_text_def mockVscode_def modifyInstruction_def emptyObject_def
      indexOf_def)

text \<open>
  The claim as it was stated asks only that the three fields are present. With
  \<open>filePath\<close> present and empty the check of the \<open>modifyFile\<close> case fails, since the
  empty string is falsy: the document, whose text is \<open>oldString\<close> itself, is not opened
  and nothing is replaced or shown.
\<close>

theorem modifyFile_empty_filePath_counterexample:
  "action (modifyInstruction\<lparr>filePath := Some []\<rparr>) = Some ''modifyFile''
   \<and> filePath (modifyInstruction\<lparr>filePath := Some []\<rparr>) = Some []
   \<and> oldString (modifyInstruction\<lparr>filePath := Some []\<rparr>) = Some ''old content''
   \<and> newString (modifyInstruction\<lparr>filePath := Some []\<rparr>) = Some ''new content''
   \<and> openTextDocument (mockVscode_with_text ''old content'') [] (Uri_file [])
       = Inr \<lparr>uri = Uri_file [], getText = ''old content''\<rparr>
   \<and> processInstruction (mockVscode_with_text ''old content'')
       (modifyInstruction\<lparr>filePath := Some []\<rparr>) [] = []"
  by (simp add: processInstruction_def modifyFile_case_def truthy_def modifyInstruction_def
      emptyObject_def mockVscode_with_text_def mockVscode_def)

text \<open>
  Claim C4: a structurally complete \<open>createFile\<close> instruction whose write is rejected
  shows exactly one error, chosen by the \<open>code\<close> of the rejection: \<^verbatim>\<open>EEXIST\<close> gives the
  \<^verbatim>\<open>already exists\<close> message, \<^verbatim>\<open>ENOENT\<close> the message that the directory does not exist,
  and any other rejection the message that carries the \<open>message\<close> of the rejection.
\<close>

theorem createFile_failure_message:
  assumes "action i = Some ''createFile''" and "filePath i = Some p" and "p \<noteq> []"
    and "content i = Some c"
    and "fs_writeFile H tr (Uri_file p) (Buffer_from c) = Some e"
  shows "(code e = Some ''EEXIST'' \<longrightarrow>
            processInstruction H i tr = tr @ [FsWriteFile (Uri_file p) (Buffer_from c),
              ShowErrorMessage (''File creation failed: '' @ p @ '' already exists.'')])
       \<and> (code e = Some ''ENOENT'' \<longrightarrow>
            processInstruction H i tr = tr @ [FsWriteFile (Uri_file p) (Buffer_from c),
              ShowErrorMessage
                (''File creation failed: Directory for '' @ p @ '' does not exist.'')])
       \<and> (code e \<noteq> Some ''EEXIST'' \<and> code e \<noteq> Some ''ENOENT'' \<longrightarrow>
            processInstruction H i tr = tr @ [FsWriteFile (Uri_file p) (Buffer_from c),
              ShowErrorMessage (''Error creating file '' @ p @ '': '' @ str (message e))])
       \<and> length (notifications (processInstruction H i tr)) = Suc (length (notifications tr))"
  using assms
  by (simp add: processInstruction_def createFile_case_def truthy_def str_def notifications_def
      Let_def)

text \<open>The three kinds of rejection on the \<open>createFile\<close> instruction of the examples.\<close>

theorem createFile_failure_message_witness:
  "processInstruction (rejectWrite \<lparr>code = Some ''EEXIST'', message = None\<rparr>) createInstruction []
     = [FsWriteFile (Uri_file ''/test/new-file.js'') ''console.log(1);'',
        ShowErrorMessage ''File creation failed: /test/new-file.js already exists.'']
   \<and> processInstruction (rejectWrite \<lparr>code = Some ''ENOENT'', message = Some ''no such directory''\<rparr>)
       createInstruction []
     = [FsWriteFile (Uri_file ''/test/new-file.js'') ''console.log(1);'',
        ShowErrorMessage
          ''File creation failed: Directory for /test/new-file.js does not exist.'']
   \<and> processInstruction (rejectWrite \<lparr>code = Some ''EACCES'', message = Some ''permission denied''\<rparr>)
       createInstruction []
     = [FsWriteFile (Uri_file ''/test/new-file.js'') ''console.log(1);'',
        ShowErrorMessage ''Error creating file /test/new-file.js: permission denied'']"
  using
    createFile_failure_message [of createInstruction "''/test/new-file.js''" "''console.log(1);''"
      "rejectWrite \<lparr>code = Some ''EEXIST'', message = None\<rparr>" "[]"
      "\<lparr>code = Some ''EEXIST'', message = None\<rparr>"]
    createFile_failure_message [of createInstruction "''/test/new-file.js''" "''console.log(1);''"
      "rejectWrite \<lparr>code = Some ''ENOENT'', message = Some ''no such directory''\<rparr>" "[]"
      "\<lparr>code = Some ''ENOENT'', message = Some ''no such directory''\<rparr>"]
    createFile_failure_message [of createInstruction "''/test/new-file.js''" "''console.log(1);''"
      "rejectWrite \<lparr>code = Some ''EACCES'', message = Some ''permission denied''\<rparr>" "[]"
      "\<lparr>code = Some ''EACCES'', message = Some ''permission denied''\<rparr>"]
  by (simp add: rejectWrite_def mockVscode_def createInstruction_def emptyObject_def str_def
      Buffer_from_def utf8_def)

text \<open>
  Claim C5, as amended: when the instruction pattern matches with a non-empty interior
  that \<open>JSON.parse\<close> rejects, the handler shows the error
  \<^verbatim>\<open>AI provided malformed JSON instruction(s).\<close> and does nothing else after the post of
  the response: no instruction is dispatched and the code block path is not run.
\<close>

theorem malformed_block_reports_error:
  assumes "jsonBlockRegex text = Some [whole, interior]" and "interior \<noteq> []"
    and "JSON_parse interior = None"
  shows "handleResponse JSON_parse H text tr =
           tr @ [PostMessage text, ShowErrorMessage ''AI provided malformed JSON instruction(s).'']"
  using assms(3) by (simp add: handleResponse_on_block [OF assms(1,2)])

text \<open>A block that holds the truncated array \<^verbatim>\<open>[1,\<close>.\<close>

theorem malformed_block_reports_error_witness:
  "handleResponse exampleParse mockVscode (jsonBlock ''[1,'') []
     = [PostMessage (jsonBlock ''[1,''),
        ShowErrorMessage ''AI provided malformed JSON instruction(s).'']"
  using malformed_block_reports_error [of "jsonBlock ''[1,''" "jsonBlock ''[1,''" "''[1,''"
      exampleParse mockVscode "[]"]
  by (simp add: jsonBlock_def jsonBlockRegex_def fence_def newline_def exampleParse_def)

text \<open>
  The claim as it was stated covers every interior that is not JSON. The empty interior
  is not JSON, and the pattern matches a block with nothing between its two newlines; the
  guard \<^verbatim>\<open>jsonMatch && jsonMatch[1]\<close> is then false, because the captured text is the
  empty string, and the handler goes on to the code block path without any error.
\<close>

theorem empty_block_counterexample:
  "jsonBlockRegex (jsonBlock []) = Some [jsonBlock [], []]
   \<and> exampleParse [] = None
   \<and> handleResponse exampleParse mockVscode (jsonBlock []) [] = [PostMessage (jsonBlock [])]
   \<and> notifications (handleResponse exampleParse mockVscode (jsonBlock []) []) = []"
  by (simp add: handleResponse_def insertCodeBlock_def jsonBlockRegex_def codeBlockRegex_def
      matchGroup_def truthy_def jsonBlock_def fence_def newline_def exampleParse_def
      notifications_def)

text \<open>
  Claim C6: when the interior of the block parses to an array, the dispatcher runs once
  for each element, in the order of the array, to the last element, and each element
  produces its own notification. The order and the run to the last element hold (lemma
  \<open>batch_runs_in_array_order\<close>), and so does the notification for every element but the
  incomplete \<open>createFile\<close> and \<open>modifyFile\<close> instructions (lemma
  \<open>count_processInstructions\<close>), which the test suite expects to be warned about. On the
  batch below, whose first element is a \<open>createFile\<close> instruction without \<open>content\<close>, both
  elements are dispatched and the deletion is done, but the log holds one notification
  for the two elements.
\<close>

theorem batch_element_without_notification:
  \<open>jsonBlockRegex (jsonBlock ''[{"action":"createFile","filePath":"/test/new-file.js"},{"action":"deleteFile","filePath":"/test/file-to-delete.js"}]'')
     = Some [jsonBlock ''[{"action":"createFile","filePath":"/test/new-file.js"},{"action":"deleteFile","filePath":"/test/file-to-delete.js"}]'',
             ''[{"action":"createFile","filePath":"/test/new-file.js"},{"action":"deleteFile","filePath":"/test/file-to-delete.js"}]'']
   \<and> exampleParse ''[{"action":"createFile","filePath":"/test/new-file.js"},{"action":"deleteFile","filePath":"/test/file-to-delete.js"}]''
     = Some (JsonArray [createWithoutContent, deleteInstruction])
   \<and> handleResponse exampleParse mockVscode
       (jsonBlock ''[{"action":"createFile","filePath":"/test/new-file.js"},{"action":"deleteFile","filePath":"/test/file-to-delete.js"}]'') []
     = [PostMessage (jsonBlock ''[{"action":"createFile","filePath":"/test/new-file.js"},{"action":"deleteFile","filePath":"/test/file-to-delete.js"}]''),
        FsDelete (Uri_file ''/test/file-to-delete.js''),
        ShowInformationMessage ''File /test/file-to-delete.js deleted successfully.'']
   \<and> length (notifications (handleResponse exampleParse mockVscode
       (jsonBlock ''[{"action":"createFile","filePath":"/test/new-file.js"},{"action":"deleteFile","filePath":"/test/file-to-delete.js"}]'') [])) = 1
   \<and> length [createWithoutContent, deleteInstruction] = 2\<close>
  by (simp add: handleResponse_def jsonBlock_def jsonBlockRegex_def matchGroup_def fence_def
      newline_def exampleParse_def processInstruction_def deleteFile_case_def
      createFile_case_def truthy_def str_def deleteInstruction_def createWithoutContent_def
      emptyObject_def mockVscode_def notifications_def)

text \<open>
  Claim C7, as amended: for a \<open>modifyFile\<close> instruction with a non-empty \<open>filePath\<close> and
  with \<open>oldString\<close> and \<open>newString\<close> present, whose document opens and is shown with a
  text in which \<open>oldString\<close> does not occur, the dispatcher asks for no edit and shows
  exactly one warning, which names the file. This holds in particular for the text that a
  first application of the instruction has produced, when \<open>oldString\<close> no longer occurs
  in it.
\<close>

theorem modifyFile_oldString_not_found:
  assumes "action i = Some ''modifyFile''" and "filePath i = Some p" and "p \<noteq> []"
    and "oldString i = Some old" and "newString i = Some new"
    and "openTextDocument H tr (Uri_file p) = Inr doc"
    and "showTextDocument H (tr @ [OpenTextDocument (Uri_file p)]) doc = Inr ed"
    and "\<not> sublist old (getText doc)"
  shows "processInstruction H i tr =
           tr @ [OpenTextDocument (Uri_file p), ShowTextDocument doc,
                 ShowWarningMessage
                   (''File modification failed: Could not find the specified oldString in ''
                      @ p @ ''.'')]"
proof -
  from assms(8) have "indexOf (getText doc) old = - 1" by (simp add: indexOf_absent_iff)
  with assms(1-7) show ?thesis
    by (simp add: processInstruction_def modifyFile_case_def truthy_def str_def Let_def)
qed

text \<open>
  The instruction applied twice: the first application, on the text \<^verbatim>\<open>old content\<close>,
  asks for the edit that turns the text into \<^verbatim>\<open>new content\<close>; the second application, on
  that text, finds nothing and warns.
\<close>

theorem modifyFile_oldString_not_found_witness:
  "processInstruction (mockVscode_with_text ''old content'') modifyInstruction []
   = [OpenTextDocument (Uri_file ''/test/existing-file.js''),
      ShowTextDocument \<lparr>uri = Uri_file ''/test/existing-file.js'', getText = ''old content''\<rparr>,
      EditorEdit \<lparr>document = \<lparr>uri = Uri_file ''/test/existing-file.js'',
        getText = ''old content''\<rparr>, selection_active = 0\<rparr>
        (Replace (vscode_Range 0 11) ''new content''),
      ShowInformationMessage ''File /test/existing-file.js modified successfully.'']
   \<and> applyEdit (Replace (vscode_Range 0 11) ''new content'') ''old content'' = ''new content''
   \<and> processInstruction
        (mockVscode_with_text (applyEdit (Replace (vscode_Range 0 11) ''new content'') ''old content''))
        modifyInstruction []
   = [OpenTextDocument (Uri_file ''/test/existing-file.js''),
      ShowTextDocument \<lparr>uri = Uri_file ''/test/existing-file.js'', getText = ''new content''\<rparr>,
      ShowWarningMessage
        ''File modification failed: Could not find the specified oldString in /test/existing-file.js.'']"
proof -
  have first: "processInstruction (mockVscode_with_text ''old content'') modifyInstruction []
   = [OpenTextDocument (Uri_file ''/test/existing-file.js''),
      ShowTextDocument \<lparr>uri = Uri_file ''/test/existing-file.js'', getText = ''old content''\<rparr>,
      EditorEdit \<lparr>document = \<lparr>uri = Uri_file ''/test/existing-file.js'',
        getText = ''old content''\<rparr>, selection_active = 0\<rparr>
        (Replace (vscode_Range 0 11) ''new content''),
      ShowInformationMessage ''File /test/existing-file.js modified successfully.'']"
    by (simp add: processInstruction_def modifyFile_case_def truthy_def str_def Let_def
        positionAt_def indexOf_def mockVscode_with_text_def mockVscode_def
        modifyInstruction_def emptyObject_def)
  have edited: "applyEdit (Replace (vscode_Range 0 11) ''new content'') ''old content''
      = ''new content''" by simp
  have absent: "\<not> sublist ''old content'' ''new content''"
    by (simp add: indexOf_absent_iff [symmetric] indexOf_def)
  have second: "processInstruction (mockVscode_with_text ''new content'') modifyInstruction []
   = [OpenTextDocument (Uri_file ''/test/existing-file.js''),
      ShowTextDocument \<lparr>uri = Uri_file ''/test/existing-file.js'', getText = ''new content''\<rparr>,
      ShowWarningMessage
        ''File modification failed: Could not find the specified oldString in /test/existing-file.js.'']"
    using absent modifyFile_oldString_not_found [of modifyInstruction "''/test/existing-file.js''"
        "''old content''" "''new content''" "mockVscode_with_text ''new content''" "[]"
        "\<lparr>uri = Uri_file ''/test/existing-file.js'', getText = ''new content''\<rparr>"
        "\<lparr>document = \<lparr>uri = Uri_file ''/test/existing-file.js'',
          getText = ''new content''\<rparr>, selection_active = 0\<rparr>"]
    by (simp add: mockVscode_with_text_def mockVscode_def modifyInstruction_def emptyObject_def)
  from first edited second show ?thesis by simp
qed

text \<open>
  The claim as it was stated asks only that the three fields are present. With
  \<open>filePath\<close> present and empty, on a document without \<open>oldString\<close>, the check of the
  \<open>modifyFile\<close> case fails and no warning is shown.
\<close>

theorem modifyFile_not_found_empty_filePath_counterexample:
  "action (modifyInstruction\<lparr>filePath := Some []\<rparr>) = Some ''modifyFile''
   \<and> filePath (modifyInstruction\<lparr>filePath := Some []\<rparr>) = Some []
   \<and> oldString (modifyInstruction\<lparr>filePath := Some []\<rparr>) = Some ''old content''
   \<and> newString (modifyInstruction\<lparr>filePath := Some []\<rparr>) = Some ''new content''
   \<and> openTextDocument (mockVscode_with_text ''new content'') [] (Uri_file [])
       = Inr \<lparr>uri = Uri_file [], getText = ''new content''\<rparr>
   \<and> \<not> sublist ''old content'' ''new content''
   \<and> notifications (processInstruction (mockVscode_with_text ''new content'')
       (modifyInstruction\<lparr>filePath := Some []\<rparr>) []) = []"
  by (simp add: processInstruction_def modifyFile_case_def truthy_def modifyInstruction_def
      emptyObject_def mockVscode_with_text_def mockVscode_def notifications_def
      indexOf_absent_iff [symmetric] indexOf_def)

text \<open>
  Claim C8: a \<open>deleteFile\<close> instruction whose \<open>filePath\<close> is not missing makes exactly one
  delete call, with the handle of that path. When the call resolves, the info message
  \<^verbatim>\<open>File <filePath> deleted successfully.\<close> is shown; when it is rejected, exactly one
  error, not a warning, is shown with the \<open>message\<close> of the rejection. The instruction of
  the first scenario of the specification, \<open>deleteInstruction\<close>, yields the info message
  for \<^verbatim>\<open>/test/file-to-delete.js\<close>.
\<close>

theorem deleteFile_dispatch:
  assumes "action i = Some ''deleteFile''" and "filePath i = Some p" and "p \<noteq> []"
  shows "(fs_delete H tr (Uri_file p) = None \<longrightarrow>
            processInstruction H i tr = tr @ [FsDelete (Uri_file p),
              ShowInformationMessage (''File '' @ p @ '' deleted successfully.'')])
       \<and> (\<forall>e. fs_delete H tr (Uri_file p) = Some e \<longrightarrow>
            processInstruction H i tr = tr @ [FsDelete (Uri_file p),
              ShowErrorMessage (''Error deleting file '' @ p @ '': '' @ str (message e))])
       \<and> (fs_delete H tr (Uri_file ''/test/file-to-delete.js'') = None \<longrightarrow>
            processInstruction H deleteInstruction tr =
              tr @ [FsDelete (Uri_file ''/test/file-to-delete.js''),
                ShowInformationMessage ''File /test/file-to-delete.js deleted successfully.''])"
  using assms
  by (simp add: processInstruction_def deleteFile_case_def truthy_def str_def
      deleteInstruction_def emptyObject_def)

text \<open>The scenario on the host of the test suite, and on a host that rejects the call.\<close>

theorem deleteFile_dispatch_witness:
  "processInstruction mockVscode deleteInstruction []
    = [FsDelete (Uri_file ''/test/file-to-delete.js''),
       ShowInformationMessage ''File /test/file-to-delete.js deleted successfully.'']
   \<and> processInstruction (rejectDelete \<lparr>code = None, message = Some ''File not found''\<rparr>)
      deleteInstruction []
    = [FsDelete (Uri_file ''/test/file-to-delete.js''),
       ShowErrorMessage ''Error deleting file /test/file-to-delete.js: File not found'']"
  using deleteFile_dispatch [of deleteInstruction "''/test/file-to-delete.js''" mockVscode "[]"]
    deleteFile_dispatch [of deleteInstruction "''/test/file-to-delete.js''"
      "rejectDelete \<lparr>code = None, message = Some ''File not found''\<rparr>" "[]"]
  by (simp add: rejectDelete_def mockVscode_def deleteInstruction_def emptyObject_def str_def)

text \<open>
  Claim C9: when the interior of the block parses to a single object, the handler first
  shows the warning that an object was given instead of an array, and then runs
  \<open>processInstruction\<close> once, on that object; everything the run adds to the log comes
  after the warning. (\<open>JSON.parse\<close> rejects the empty text.)
\<close>

theorem single_object_is_dispatched_after_warning:
  assumes "jsonBlockRegex text = Some [whole, interior]"
    and "JSON_parse [] = None"
    and "JSON_parse interior = Some (JsonObject instruction)"
  shows "handleResponse JSON_parse H text tr =
           processInstruction H instruction (tr @ [PostMessage text, ShowWarningMessage
             ''AI provided a single JSON object instead of an array for operations. Attempting to process as a single operation.''])
       \<and> prefix (tr @ [PostMessage text, ShowWarningMessage
             ''AI provided a single JSON object instead of an array for operations. Attempting to process as a single operation.''])
           (handleResponse JSON_parse H text tr)"
proof -
  from assms(2,3) have "interior \<noteq> []" by auto
  from handleResponse_on_block [OF assms(1) this] assms(3)
  show ?thesis by (simp add: prefix_processInstruction)
qed

text \<open>A block that holds the \<open>deleteFile\<close> object of the examples.\<close>

theorem single_object_is_dispatched_after_warning_witness:
  \<open>handleResponse exampleParse mockVscode
     (jsonBlock ''{"action":"deleteFile","filePath":"/test/file-to-delete.js"}'') []
   = [PostMessage (jsonBlock ''{"action":"deleteFile","filePath":"/test/file-to-delete.js"}''),
      ShowWarningMessage
        ''AI provided a single JSON object instead of an array for operations. Attempting to process as a single operation.'',
      FsDelete (Uri_file ''/test/file-to-delete.js''),
      ShowInformationMessage ''File /test/file-to-delete.js deleted successfully.'']\<close>
  using single_object_is_dispatched_after_warning
    [of \<open>jsonBlock ''{"action":"deleteFile","filePath":"/test/file-to-delete.js"}''\<close>
      \<open>jsonBlock ''{"action":"deleteFile","filePath":"/test/file-to-delete.js"}''\<close>
      \<open>''{"action":"deleteFile","filePath":"/test/file-to-delete.js"}''\<close>
      exampleParse deleteInstruction mockVscode "[]"]
  by (simp add: jsonBlock_def jsonBlockRegex_def fence_def newline_def exampleParse_def
      processInstruction_def deleteFile_case_def truthy_def str_def deleteInstruction_def
      emptyObject_def mockVscode_def)

text \<open>
  Claim C10: in a \<open>deleteFile\<close>, \<open>renameFile\<close> or \<open>runShellCommand\<close> instruction, a path or
  command field that is present and equal to the empty string is treated as an absent
  one: the instruction and the instruction without the field both get the warning of
  the missing field, and nothing else is added to the log, so the host is not called.
  The fields \<open>content\<close>, \<open>oldString\<close> and \<open>newString\<close> are tested for presence instead:
  with the empty string in them the file is written or the document is opened, and
  only without them is the instruction skipped.
\<close>

theorem empty_field_is_treated_as_absent:
  "(action i = Some ''deleteFile'' \<and> filePath i = Some [] \<longrightarrow>
      processInstruction H i tr =
          tr @ [ShowWarningMessage ''Delete file instruction missing filePath.'']
      \<and> processInstruction H (i\<lparr>filePath := None\<rparr>) tr =
          tr @ [ShowWarningMessage ''Delete file instruction missing filePath.''])
   \<and> (action i = Some ''renameFile'' \<and> oldPath i = Some [] \<longrightarrow>
      processInstruction H i tr =
          tr @ [ShowWarningMessage ''Rename file instruction missing oldPath or newPath.'']
      \<and> processInstruction H (i\<lparr>oldPath := None\<rparr>) tr =
          tr @ [ShowWarningMessage ''Rename file instruction missing oldPath or newPath.''])
   \<and> (action i = Some ''renameFile'' \<and> newPath i = Some [] \<longrightarrow>
      processInstruction H i tr =
          tr @ [ShowWarningMessage ''Rename file instruction missing oldPath or newPath.'']
      \<and> processInstruction H (i\<lparr>newPath := None\<rparr>) tr =
          tr @ [ShowWarningMessage ''Rename file instruction missing oldPath or newPath.''])
   \<and> (action i = Some ''runShellCommand'' \<and> command i = Some [] \<longrightarrow>
      processInstruction H i tr =
          tr @ [ShowWarningMessage ''Run shell command instruction missing command.'']
      \<and> processInstruction H (i\<lparr>command := None\<rparr>) tr =
          tr @ [ShowWarningMessage ''Run shell command instruction missing command.''])
   \<and> (action i = Some ''createFile'' \<and> truthy (filePath i) \<and> content i = Some [] \<longrightarrow>
      FsWriteFile (Uri_file (str (filePath i))) (Buffer_from []) \<in> set (processInstruction H i tr)
      \<and> processInstruction H (i\<lparr>content := None\<rparr>) tr = tr)
   \<and> (action i = Some ''modifyFile'' \<and> truthy (filePath i)
        \<and> oldString i = Some [] \<and> newString i = Some [] \<longrightarrow>
      OpenTextDocument (Uri_file (str (filePath i))) \<in> set (processInstruction H i tr)
      \<and> processInstruction H (i\<lparr>oldString := None\<rparr>) tr = tr
      \<and> processInstruction H (i\<lparr>newString := None\<rparr>) tr = tr)"
proof -
  have path_fields: "(action i = Some ''deleteFile'' \<and> filePath i = Some [] \<longrightarrow>
      processInstruction H i tr =
          tr @ [ShowWarningMessage ''Delete file instruction missing filePath.'']
      \<and> processInstruction H (i\<lparr>filePath := None\<rparr>) tr =
          tr @ [ShowWarningMessage ''Delete file instruction missing filePath.''])
   \<and> (action i = Some ''renameFile'' \<and> oldPath i = Some [] \<longrightarrow>
      processInstruction H i tr =
          tr @ [ShowWarningMessage ''Rename file instruction missing oldPath or newPath.'']
      \<and> processInstruction H (i\<lparr>oldPath := None\<rparr>) tr =
          tr @ [ShowWarningMessage ''Rename file instruction missing oldPath or newPath.''])
   \<and> (action i = Some ''renameFile'' \<and> newPath i = Some [] \<longrightarrow>
      processInstruction H i tr =
          tr @ [ShowWarningMessage ''Rename file instruction missing oldPath or newPath.'']
      \<and> processInstruction H (i\<lparr>newPath := None\<rparr>) tr =
          tr @ [ShowWarningMessage ''Rename file instruction missing oldPath or newPath.''])
   \<and> (action i = Some ''runShellCommand'' \<and> command i = Some [] \<longrightarrow>
      processInstruction H i tr =
          tr @ [ShowWarningMessage ''Run shell command instruction missing command.'']
      \<and> processInstruction H (i\<lparr>command := None\<rparr>) tr =
          tr @ [ShowWarningMessage ''Run shell command instruction missing command.''])"
    by (simp add: processInstruction_def deleteFile_case_def renameFile_case_def
        runShellCommand_case_def truthy_def)
  have content_field: "action i = Some ''createFile'' \<and> truthy (filePath i)
        \<and> content i = Some [] \<longrightarrow>
      FsWriteFile (Uri_file (str (filePath i))) (Buffer_from []) \<in> set (processInstruction H i tr)
      \<and> processInstruction H (i\<lparr>content := None\<rparr>) tr = tr"
    by (simp add: processInstruction_def createFile_case_def Let_def str_def
        split: option.splits)
  have string_fields: "action i = Some ''modifyFile'' \<and> truthy (filePath i)
        \<and> oldString i = Some [] \<and> newString i = Some [] \<longrightarrow>
      OpenTextDocument (Uri_file (str (filePath i))) \<in> set (processInstruction H i tr)
      \<and> processInstruction H (i\<lparr>oldString := None\<rparr>) tr = tr
      \<and> processInstruction H (i\<lparr>newString := None\<rparr>) tr = tr"
    by (simp add: processInstruction_def modifyFile_case_def Let_def split: sum.splits)
  from path_fields content_field string_fields show ?thesis by blast
qed

text \<open>One instruction with an empty field for each of the fields.\<close>

theorem empty_field_is_treated_as_absent_witness:
  "processInstruction mockVscode (emptyObject\<lparr>action := Some ''deleteFile'', filePath := Some []\<rparr>) []
     = [ShowWarningMessage ''Delete file instruction missing filePath.'']
   \<and> processInstruction mockVscode
       (emptyObject\<lparr>action := Some ''renameFile'', oldPath := Some [],
          newPath := Some ''/test/new-name.js''\<rparr>) []
     = [ShowWarningMessage ''Rename file instruction missing oldPath or newPath.'']
   \<and> processInstruction mockVscode
       (emptyObject\<lparr>action := Some ''renameFile'', oldPath := Some ''/test/old-name.js'',
          newPath := Some []\<rparr>) []
     = [ShowWarningMessage ''Rename file instruction missing oldPath or newPath.'']
   \<and> processInstruction mockVscode
       (emptyObject\<lparr>action := Some ''runShellCommand'', command := Some []\<rparr>) []
     = [ShowWarningMessage ''Run shell command instruction missing command.'']
   \<and> FsWriteFile (Uri_file ''/test/new-file.js'') [] \<in> set (processInstruction mockVscode
       (emptyObject\<lparr>action := Some ''createFile'', filePath := Some ''/test/new-file.js'',
          content := Some []\<rparr>) [])
   \<and> OpenTextDocument (Uri_file ''/test/existing-file.js'') \<in> set (processInstruction mockVscode
       (emptyObject\<lparr>action := Some ''modifyFile'', filePath := Some ''/test/existing-file.js'',
          oldString := Some [], newString := Some []\<rparr>) [])"
  using
    empty_field_is_treated_as_absent [of "emptyObject\<lparr>action := Some ''deleteFile'',
      filePath := Some []\<rparr>" mockVscode "[]"]
    empty_field_is_treated_as_absent [of "emptyObject\<lparr>action := Some ''renameFile'',
      oldPath := Some [], newPath := Some ''/test/new-name.js''\<rparr>" mockVscode "[]"]
    empty_field_is_treated_as_absent [of "emptyObject\<lparr>action := Some ''renameFile'',
      oldPath := Some ''/test/old-name.js'', newPath := Some []\<rparr>" mockVscode "[]"]
    empty_field_is_treated_as_absent [of "emptyObject\<lparr>action := Some ''runShellCommand'',
      command := Some []\<rparr>" mockVscode "[]"]
    empty_field_is_treated_as_absent [of "emptyObject\<lparr>action := Some ''createFile'',
      filePath := Some ''/test/new-file.js'', content := Some []\<rparr>" mockVscode "[]"]
    empty_field_is_treated_as_absent [of "emptyObject\<lparr>action := Some ''modifyFile'',
      filePath := Some ''/test/existing-file.js'', oldString := Some [],
      newString := Some []\<rparr>" mockVscode "[]"]
  by (simp add: emptyObject_def truthy_def str_def Buffer_from_def utf8_def)

end
